theory Spec2Isabelle
  imports Main
begin

section \<open>Python values\<close>

text \<open>
  A Python \<open>str\<close> is a sequence of Unicode code points; it is modelled as the list of these
  code points, so that \<open>len\<close>, slicing and indexing count what Python counts. \<open>str\<close> turns an
  ASCII literal into such a list.
\<close>

type_synonym pystr = "nat list"

definition str :: "string \<Rightarrow> pystr" where
  "str s = map of_char s"

text \<open>
  The values \<open>json.loads\<close> produces: \<open>None\<close>, \<open>bool\<close>, \<open>int\<close>, \<open>float\<close> (a finite
  double, as mantissa and binary exponent; the code never inspects a number), \<open>str\<close>,
  \<open>list\<close> and \<open>dict\<close> (its items in insertion order, keys distinct).
\<close>

datatype json =
    JNull
  | JBool bool
  | JInt int
  | JFloat int int
  | JStr pystr
  | JList "json list"
  | JObj "(pystr \<times> json) list"

text \<open>
  Exceptions, by the classes the handlers of the source tell apart:
  \<open>requests.exceptions.ConnectionError\<close> (and its subclasses), any other
  \<open>requests.exceptions.RequestException\<close> (\<open>HTTPError\<close>, \<open>Timeout\<close>, ...), the built-in
  errors the handler's own code can raise, and any other \<open>Exception\<close>. Those of
  \<open>requests\<close> carry \<open>str(e)\<close>.
\<close>

datatype exn =
    ConnectionError pystr
  | RequestException pystr
  | AttributeError
  | TypeError
  | KeyError
  | Exception pystr

subsection \<open>\<open>str\<close> methods\<close>

text \<open>\<open>str.isspace\<close> of one code point: the white space of the Unicode database.\<close>

definition isspace :: "nat \<Rightarrow> bool" where
  "isspace c \<longleftrightarrow>
     (0x09 \<le> c \<and> c \<le> 0x0D) \<or> (0x1C \<le> c \<and> c \<le> 0x20) \<or> c = 0x85 \<or> c = 0xA0 \<or>
     c = 0x1680 \<or> (0x2000 \<le> c \<and> c \<le> 0x200A) \<or> c = 0x2028 \<or> c = 0x2029 \<or>
     c = 0x202F \<or> c = 0x205F \<or> c = 0x3000"

text \<open>\<open>s.strip()\<close>: leading and trailing white space removed.\<close>

definition strip :: "pystr \<Rightarrow> pystr" where
  "strip s = rev (dropWhile isspace (rev (dropWhile isspace s)))"

text \<open>\<open>s.startswith(p)\<close> and \<open>p in s\<close> for two strings.\<close>

fun startswith :: "pystr \<Rightarrow> pystr \<Rightarrow> bool" where
  "startswith s [] = True"
| "startswith [] (p # ps) = False"
| "startswith (c # cs) (p # ps) = (c = p \<and> startswith cs ps)"

fun str_contains :: "pystr \<Rightarrow> pystr \<Rightarrow> bool" where
  "str_contains p [] = (p = [])"
| "str_contains p (c # cs) = (startswith (c # cs) p \<or> str_contains p cs)"

text \<open>
  Case mappings. The source lowers and capitalises two kinds of text only: the text a
  case-insensitive match of \<open>Positive|Negative|Neutral\<close> covers, and an exception message that
  is then searched for an ASCII phrase. A match consists of ASCII letters, U+0130 (capital I
  with dot above), U+0131 (dotless i) and U+017F (long s); for these, and for every other
  ASCII code point, the tables below are those of the Unicode database. The lower-case table
  has, besides, every code point that is lowered to ASCII: U+212A (Kelvin sign) is the one
  left. Any other code point is left as it is, where Python maps it by the full tables: in
  lower case to code points outside ASCII, so that the search for an ASCII phrase finds the
  same; \<open>title_cp\<close> is applied to the first code point of a match only.
\<close>

definition lower_cp :: "nat \<Rightarrow> pystr" where
  "lower_cp c =
     (if 0x41 \<le> c \<and> c \<le> 0x5A then [c + 32]
      else if c = 0x130 then [0x69, 0x307]
      else if c = 0x212A then [0x6B]
      else [c])"

definition lower :: "pystr \<Rightarrow> pystr" where
  "lower s = concat (map lower_cp s)"

definition title_cp :: "nat \<Rightarrow> pystr" where
  "title_cp c =
     (if 0x61 \<le> c \<and> c \<le> 0x7A then [c - 32]
      else if c = 0x131 then [0x49]
      else if c = 0x17F then [0x53]
      else [c])"

text \<open>\<open>s.capitalize()\<close>: the first code point in title case, the rest in lower case.\<close>

definition capitalize :: "pystr \<Rightarrow> pystr" where
  "capitalize s = (case s of [] \<Rightarrow> [] | c # cs \<Rightarrow> title_cp c @ lower cs)"

subsection \<open>\<open>re.search\<close> with \<open>re.IGNORECASE\<close> for an alternation of literals\<close>

text \<open>
  The simple lower-case mapping the matcher applies to a code point of the text
  (\<open>sre_lower_unicode\<close>), and the extra equivalences the compiler adds for a literal
  (\<open>_ignorecase_fixes\<close>, of which \<open>i\<close> and \<open>s\<close> are the ASCII entries).
\<close>

definition sre_lower_unicode :: "nat \<Rightarrow> nat" where
  "sre_lower_unicode c =
     (if 0x41 \<le> c \<and> c \<le> 0x5A then c + 32
      else if c = 0x130 then 0x69
      else if c = 0x212A then 0x6B
      else c)"

definition ignorecase_fixes :: "nat \<Rightarrow> nat list" where
  "ignorecase_fixes lo =
     (if lo = 0x69 then [0x131] else if lo = 0x73 then [0x17F] else [])"

text \<open>A literal \<open>av\<close> of the pattern against the code point \<open>ch\<close> of the text.\<close>

definition literal_ignore :: "nat \<Rightarrow> nat \<Rightarrow> bool" where
  "literal_ignore av ch =
     (let lo = sre_lower_unicode av
      in sre_lower_unicode ch \<in> set (lo # ignorecase_fixes lo))"

text \<open>A sequence of literals against the text at the current position.\<close>

fun match_literals :: "pystr \<Rightarrow> pystr \<Rightarrow> bool" where
  "match_literals [] s = True"
| "match_literals (av # avs) [] = False"
| "match_literals (av # avs) (ch # s) = (literal_ignore av ch \<and> match_literals avs s)"

text \<open>
  The alternatives are tried in the pattern's order at one position; the result is the text
  covered, \<open>group(0)\<close>.
\<close>

fun match_branch :: "pystr list \<Rightarrow> pystr \<Rightarrow> pystr option" where
  "match_branch [] s = None"
| "match_branch (alt # alts) s =
     (if match_literals alt s then Some (take (length alt) s) else match_branch alts s)"

text \<open>The search moves the start position from left to right and stops at the first match.\<close>

fun re_search :: "pystr list \<Rightarrow> pystr \<Rightarrow> pystr option" where
  "re_search alts [] = match_branch alts []"
| "re_search alts (ch # s) =
     (case match_branch alts (ch # s) of
        Some m \<Rightarrow> Some m
      | None \<Rightarrow> re_search alts s)"

text \<open>The pattern \<open>r'(Positive|Negative|Neutral)'\<close>.\<close>

definition sentiment_pattern :: "pystr list" where
  "sentiment_pattern = [str ''Positive'', str ''Negative'', str ''Neutral'']"

subsection \<open>Operations on parsed JSON\<close>

text \<open>\<open>key in value\<close> for a \<open>str\<close> key: substring, element or key test; a \<open>TypeError\<close> otherwise.\<close>

definition py_in :: "pystr \<Rightarrow> json \<Rightarrow> exn + bool" where
  "py_in k v =
     (case v of
        JStr s \<Rightarrow> Inr (str_contains k s)
      | JList xs \<Rightarrow> Inr (JStr k \<in> set xs)
      | JObj kvs \<Rightarrow> Inr (k \<in> set (map fst kvs))
      | _ \<Rightarrow> Inl TypeError)"

text \<open>\<open>value[key]\<close> for a \<open>str\<close> key.\<close>

definition getitem :: "json \<Rightarrow> pystr \<Rightarrow> exn + json" where
  "getitem v k =
     (case v of
        JObj kvs \<Rightarrow> (case map_of kvs k of None \<Rightarrow> Inl KeyError | Some x \<Rightarrow> Inr x)
      | _ \<Rightarrow> Inl TypeError)"

text \<open>\<open>value.get(key, default)\<close>: a method of \<open>dict\<close> only.\<close>

definition get_method :: "json \<Rightarrow> pystr \<Rightarrow> json \<Rightarrow> exn + json" where
  "get_method v k d =
     (case v of
        JObj kvs \<Rightarrow> (case map_of kvs k of None \<Rightarrow> Inr d | Some x \<Rightarrow> Inr x)
      | _ \<Rightarrow> Inl AttributeError)"

text \<open>\<open>value.strip()\<close>: a method of \<open>str\<close> only.\<close>

definition strip_method :: "json \<Rightarrow> exn + pystr" where
  "strip_method v = (case v of JStr s \<Rightarrow> Inr (strip s) | _ \<Rightarrow> Inl AttributeError)"

text \<open>The iteration \<open>for m in value\<close>: the elements, the keys, or the characters.\<close>

definition py_iter :: "json \<Rightarrow> exn + json list" where
  "py_iter v =
     (case v of
        JList xs \<Rightarrow> Inr xs
      | JObj kvs \<Rightarrow> Inr (map (\<lambda>kv. JStr (fst kv)) kvs)
      | JStr s \<Rightarrow> Inr (map (\<lambda>c. JStr [c]) s)
      | _ \<Rightarrow> Inl TypeError)"

section \<open>The request handler (backend/main.py)\<close>

text \<open>The dict \<open>{"sentiment": s}\<close> every \<open>return\<close> of the handler builds.\<close>

definition sentiment_dict :: "pystr \<Rightarrow> json" where
  "sentiment_dict s = JObj [(str ''sentiment'', JStr s)]"

text \<open>
  Lines 78 to 90: the label is read from the parsed reply of the generation endpoint. A step
  that raises ends the block with that exception.
\<close>

definition extract_sentiment :: "json \<Rightarrow> exn + json" where
  "extract_sentiment result =
     (case py_in (str ''response'') result of
        Inl e \<Rightarrow> Inl e
      | Inr False \<Rightarrow> Inr (sentiment_dict (str ''Error: Unable to analyze sentiment''))
      | Inr True \<Rightarrow>
          (case getitem result (str ''response'') of
             Inl e \<Rightarrow> Inl e
           | Inr v \<Rightarrow>
               (case strip_method v of
                  Inl e \<Rightarrow> Inl e
                | Inr raw_sentiment \<Rightarrow>
                    (case re_search sentiment_pattern raw_sentiment of
                       Some sentiment_match \<Rightarrow> Inr (sentiment_dict (capitalize sentiment_match))
                     | None \<Rightarrow> Inr (sentiment_dict (take 50 raw_sentiment))))))"

subsection \<open>The outside world\<close>

text \<open>
  What \<open>requests\<close> hands back: the status code, the message \<open>raise_for_status\<close> puts into
  its \<open>HTTPError\<close> for a 4xx or 5xx status, and what \<open>.json()\<close> returns or raises.
\<close>

record http_response =
  status_code :: int
  http_error_msg :: pystr
  json_method :: "exn + json"

text \<open>
  The world one request runs in: the outcome of \<open>requests.get(url, timeout)\<close>, of
  \<open>requests.post(url, json, timeout)\<close> and of \<open>subprocess.Popen(args)\<close> (\<open>None\<close> when the
  process starts). Each is called at most once in a request.
\<close>

record world =
  requests_get :: "pystr \<Rightarrow> nat \<Rightarrow> exn + http_response"
  requests_post :: "pystr \<Rightarrow> json \<Rightarrow> nat \<Rightarrow> exn + http_response"
  subprocess_Popen :: "pystr list \<Rightarrow> exn option"

text \<open>The calls a request makes, in order. Logging is left out.\<close>

datatype event =
    Get pystr nat
  | Post pystr json nat
  | Popen "pystr list"

definition raise_for_status :: "http_response \<Rightarrow> exn + unit" where
  "raise_for_status r =
     (if 400 \<le> status_code r \<and> status_code r < 600
      then Inl (RequestException (http_error_msg r))
      else Inr ())"

subsection \<open>Model selection (lines 40 to 52)\<close>

definition tags_url :: pystr where
  "tags_url = str ''http://localhost:11434/api/tags''"

definition model_options :: "pystr list" where
  "model_options = [str ''phi'', str ''tinyllama'', str ''gemma:2b'', str ''llama2'']"

text \<open>\<open>[m["name"] for m in models]\<close>: the first element that raises ends the comprehension.\<close>

fun names_of :: "json list \<Rightarrow> exn + json list" where
  "names_of [] = Inr []"
| "names_of (m # ms) =
     (case getitem m (str ''name'') of
        Inl e \<Rightarrow> Inl e
      | Inr n \<Rightarrow> (case names_of ms of Inl e \<Rightarrow> Inl e | Inr ns \<Rightarrow> Inr (n # ns)))"

definition available_models_of :: "json \<Rightarrow> exn + json list" where
  "available_models_of body =
     (case get_method body (str ''models'') (JList []) of
        Inl e \<Rightarrow> Inl e
      | Inr models \<Rightarrow> (case py_iter models of Inl e \<Rightarrow> Inl e | Inr ms \<Rightarrow> names_of ms))"

text \<open>
  The loop over the candidates: the first one that is in \<open>available_models\<close> is assigned to
  \<open>MODEL_NAME\<close> and ends the loop; \<open>MODEL_NAME\<close> keeps its value when the loop runs out.
\<close>

fun select_model :: "pystr list \<Rightarrow> json list \<Rightarrow> pystr \<Rightarrow> pystr" where
  "select_model [] available_models model_name = model_name"
| "select_model (model_option # rest) available_models model_name =
     (if JStr model_option \<in> set available_models then model_option
      else select_model rest available_models model_name)"

text \<open>
  The body of the first \<open>try\<close>: the value of \<open>MODEL_NAME\<close> it leaves, or the exception it
  raises (no assignment precedes a raise), and the calls made.
\<close>

definition check_ollama :: "world \<Rightarrow> pystr \<Rightarrow> (exn + pystr) \<times> event list" where
  "check_ollama w model_name =
     (case requests_get w tags_url 3 of
        Inl e \<Rightarrow> Inl e
      | Inr check_response \<Rightarrow>
          if status_code check_response = 200 then
            (case json_method check_response of
               Inl e \<Rightarrow> Inl e
             | Inr body \<Rightarrow>
                 (case available_models_of body of
                    Inl e \<Rightarrow> Inl e
                  | Inr available_models \<Rightarrow>
                      Inr (select_model model_options available_models model_name)))
          else Inr model_name,
      [Get tags_url 3])"

subsection \<open>Generation (lines 57 to 109)\<close>

definition generate_url :: pystr where
  "generate_url = str ''http://localhost:11434/api/generate''"

definition prompt_of :: "pystr \<Rightarrow> pystr" where
  "prompt_of text =
     str ''Analyze the sentiment of the following text and respond with EXACTLY ONE WORD (Positive, Negative, or Neutral).''
     @ [0x0A] @ str ''Text: '' @ text @ [0x0A] @ str ''Sentiment:''"

definition generate_payload :: "pystr \<Rightarrow> pystr \<Rightarrow> json" where
  "generate_payload model_name prompt =
     JObj [(str ''model'', JStr model_name), (str ''prompt'', JStr prompt),
           (str ''stream'', JBool False)]"

text \<open>The body of the second \<open>try\<close>, lines 64 to 90.\<close>

definition try_generate :: "world \<Rightarrow> pystr \<Rightarrow> pystr \<Rightarrow> exn + json" where
  "try_generate w model_name prompt =
     (case requests_post w generate_url (generate_payload model_name prompt) 15 of
        Inl e \<Rightarrow> Inl e
      | Inr response \<Rightarrow>
          (case raise_for_status response of
             Inl e \<Rightarrow> Inl e
           | Inr u \<Rightarrow>
               (case json_method response of
                  Inl e \<Rightarrow> Inl e
                | Inr result \<Rightarrow> extract_sentiment result)))"

text \<open>
  Its \<open>except\<close> clauses, lines 92 to 109, in the source's order; the inner \<open>try\<close> around
  \<open>Popen\<close> has a bare \<open>except\<close>.
\<close>

definition except_generate :: "world \<Rightarrow> pystr \<Rightarrow> exn \<Rightarrow> (exn + json) \<times> event list" where
  "except_generate w model_name e =
     (case e of
        ConnectionError msg \<Rightarrow>
          (Inr (sentiment_dict
             (str ''Error: Cannot connect to Ollama. Run 'ollama serve' in a terminal'')), [])
      | RequestException msg \<Rightarrow>
          if str_contains (str ''model not found'') (lower msg) then
            (case subprocess_Popen w [str ''ollama'', str ''pull'', model_name] of
               None \<Rightarrow>
                 Inr (sentiment_dict (str ''Model '' @ model_name @
                   str '' not found. Attempting to download it now. Please try again in a minute.''))
             | Some e' \<Rightarrow>
                 Inr (sentiment_dict (str ''Error: Model not found. Run 'ollama pull '' @
                   model_name @ [0x27] @ str '' in a terminal'')),
             [Popen [str ''ollama'', str ''pull'', model_name]])
          else (Inr (sentiment_dict (str ''Error connecting to Ollama API'')), [])
      | _ \<Rightarrow> (Inr (sentiment_dict (str ''Unexpected error occurred'')), []))"

definition generate :: "world \<Rightarrow> pystr \<Rightarrow> pystr \<Rightarrow> (exn + json) \<times> event list" where
  "generate w model_name prompt =
     (case try_generate w model_name prompt of
        Inr d \<Rightarrow> (Inr d, [Post generate_url (generate_payload model_name prompt) 15])
      | Inl e \<Rightarrow>
          (fst (except_generate w model_name e),
           Post generate_url (generate_payload model_name prompt) 15
             # snd (except_generate w model_name e)))"

subsection \<open>The two endpoints\<close>

text \<open>
  \<open>analyze_sentiment\<close> under the world \<open>w\<close>, with \<open>MODEL_NAME\<close> passed in and out: what the
  handler returns (or the exception that escapes it), the new \<open>MODEL_NAME\<close>, the calls made.
\<close>

definition not_running :: pystr where
  "not_running = str ''Error: Ollama is not running. Start with 'ollama serve'' @ [0x27]"

definition analyze_sentiment ::
  "world \<Rightarrow> pystr \<Rightarrow> pystr \<Rightarrow> (exn + json) \<times> pystr \<times> event list" where
  "analyze_sentiment w model_name text =
     (if strip text = [] then
        (Inr (sentiment_dict (str ''Please provide some text to analyze'')), model_name, [])
      else
        (case check_ollama w model_name of
           (Inl e, evs) \<Rightarrow> (Inr (sentiment_dict not_running), model_name, evs)
         | (Inr model_name', evs) \<Rightarrow>
             (fst (generate w model_name' (prompt_of text)), model_name',
              evs @ snd (generate w model_name' (prompt_of text)))))"

definition health_check :: "pystr \<Rightarrow> json" where
  "health_check model_name = JObj [(str ''status'', JStr (str ''ok'')), (str ''model'', JStr model_name)]"

subsection \<open>The route \<open>POST /analyze/\<close>\<close>





text \<open>The process: \<open>MODEL_NAME\<close> starts as \<open>"phi"\<close>; each request runs in a world of its own.\<close>

datatype request = GetRoot | PostAnalyze pystr

definition MODEL_NAME_init :: pystr where
  "MODEL_NAME_init = str ''phi''"

definition serve :: "pystr \<Rightarrow> world \<times> request \<Rightarrow> pystr" where
  "serve model_name wr =
     (case snd wr of
        GetRoot \<Rightarrow> model_name
      | PostAnalyze text \<Rightarrow> fst (snd (analyze_sentiment (fst wr) model_name text)))"

definition MODEL_NAME_after :: "(world \<times> request) list \<Rightarrow> pystr" where
  "MODEL_NAME_after reqs = foldl serve MODEL_NAME_init reqs"

section \<open>The client view (frontend/app.py, lines 54 to 69)\<close>

text \<open>
  A status element of the page: which of \<open>st.success\<close>, \<open>st.error\<close>, \<open>st.info\<close>,
  \<open>st.warning\<close> is called, and the value it is given.
\<close>

datatype style = st_success | st_error | st_info | st_warning

text \<open>
  A value inside an f-string: a \<open>str\<close> is inserted as it is; for any other value Python's
  \<open>str()\<close> is a parameter, \<open>py_str\<close>.
\<close>

definition format_value :: "(json \<Rightarrow> pystr) \<Rightarrow> json \<Rightarrow> pystr" where
  "format_value py_str v = (case v of JStr s \<Rightarrow> s | _ \<Rightarrow> py_str v)"

text \<open>Lines 58 to 67: the chain of comparisons on \<open>sentiment\<close>.\<close>

definition show_sentiment :: "(json \<Rightarrow> pystr) \<Rightarrow> json \<Rightarrow> exn + style \<times> json" where
  "show_sentiment py_str sentiment =
     (if sentiment = JStr (str ''Positive'') then
        Inr (st_success,
             JStr (str ''Sentiment: '' @ format_value py_str sentiment @ [0x20, 0x1F600]))
      else if sentiment = JStr (str ''Negative'') then
        Inr (st_error,
             JStr (str ''Sentiment: '' @ format_value py_str sentiment @ [0x20, 0x1F61E]))
      else if sentiment = JStr (str ''Neutral'') then
        Inr (st_info,
             JStr (str ''Sentiment: '' @ format_value py_str sentiment @ [0x20, 0x1F610]))
      else
        (case py_in (str ''Error'') sentiment of
           Inl e \<Rightarrow> Inl e
         | Inr True \<Rightarrow> Inr (st_error, sentiment)
         | Inr False \<Rightarrow>
             Inr (st_warning, JStr (str ''Sentiment: '' @ format_value py_str sentiment))))"

text \<open>
  Lines 54 to 69: what is shown for the response \<open>res\<close> of the handler. An exception raised
  here goes to the \<open>except\<close> clauses of lines 71 to 74.
\<close>

definition show_response :: "(json \<Rightarrow> pystr) \<Rightarrow> http_response \<Rightarrow> exn + style \<times> json" where
  "show_response py_str res =
     (if status_code res = 200 then
        (case json_method res of
           Inl e \<Rightarrow> Inl e
         | Inr body \<Rightarrow>
             (case get_method body (str ''sentiment'') (JStr (str ''Error'')) of
                Inl e \<Rightarrow> Inl e
              | Inr sentiment \<Rightarrow> show_sentiment py_str sentiment))
      else
        Inr (st_error,
             JStr (str ''Error: Received status code '' @ py_str (JInt (status_code res)))))"

section \<open>Notions the properties are stated with\<close>

text \<open>
  A word occurs in \<open>s\<close> at position \<open>i\<close>, letter case ignored as \<open>re.IGNORECASE\<close> ignores
  it; and it occurs somewhere in \<open>s\<close>.
\<close>

definition occurs_at :: "pystr \<Rightarrow> pystr \<Rightarrow> nat \<Rightarrow> bool" where
  "occurs_at word s i = match_literals word (drop i s)"

fun occurs :: "pystr \<Rightarrow> pystr \<Rightarrow> bool" where
  "occurs word [] = match_literals word []"
| "occurs word (ch # s) = (match_literals word (ch # s) \<or> occurs word s)"

text \<open>The parsed reply of the generation endpoint whose \<open>response\<close> field is \<open>reply\<close>.\<close>

definition has_response :: "json \<Rightarrow> pystr \<Rightarrow> bool" where
  "has_response result reply =
     (case result of
        JObj kvs \<Rightarrow> map_of kvs (str ''response'') = Some (JStr reply)
      | _ \<Rightarrow> False)"

text \<open>The response the client receives when the handler returns the dict \<open>d\<close>.\<close>

definition ok_response :: "json \<Rightarrow> http_response" where
  "ok_response d = \<lparr>status_code = 200, http_error_msg = [], json_method = Inr d\<rparr>"

section \<open>Example inputs\<close>

text \<open>A reply of the tags endpoint that lists models of the given names.\<close>

definition tags_body :: "pystr list \<Rightarrow> json" where
  "tags_body names = JObj [(str ''models'', JList (map (\<lambda>n. JObj [(str ''name'', JStr n)]) names))]"

text \<open>
  A world in which the tags endpoint answers \<open>tags\<close>, the generation endpoint answers
  \<open>generated\<close>, and \<open>ollama pull\<close> starts.
\<close>

definition example_world :: "exn + http_response \<Rightarrow> exn + http_response \<Rightarrow> world" where
  "example_world tags generated =
     \<lparr>requests_get = (\<lambda>url timeout. tags),
      requests_post = (\<lambda>url payload timeout. generated),
      subprocess_Popen = (\<lambda>args. None)\<rparr>"

section \<open>Properties of the matcher\<close>

subsection \<open>Literals and white space\<close>

lemma literal_ignore_not_space:
  assumes "(0x41 \<le> av \<and> av \<le> 0x5A) \<or> (0x61 \<le> av \<and> av \<le> 0x7A)"
  shows "literal_ignore av ch \<Longrightarrow> \<not> isspace ch"
  using assms unfolding literal_ignore_def sre_lower_unicode_def ignorecase_fixes_def Let_def isspace_def
  by (auto split: if_splits)

lemma match_literals_append: "match_literals k t \<Longrightarrow> match_literals k (t @ u)"
  by (induction k t rule: match_literals.induct) auto

lemma match_literals_length: "match_literals k t \<Longrightarrow> length k \<le> length t"
  by (induction k t rule: match_literals.induct) auto

lemma match_literals_space:
  assumes "k \<noteq> []" "\<forall>av\<in>set k. \<forall>ch. literal_ignore av ch \<longrightarrow> \<not> isspace ch" "isspace c"
  shows "\<not> match_literals k (c # s)"
  using assms by (cases k) auto

lemma match_branch_space:
  assumes "\<forall>k\<in>set alts. k \<noteq> [] \<and> (\<forall>av\<in>set k. \<forall>ch. literal_ignore av ch \<longrightarrow> \<not> isspace ch)"
    and "isspace c"
  shows "match_branch alts (c # s) = None"
  using assms by (induction alts) (auto simp: match_literals_space)

lemma match_branch_Nil:
  assumes "\<forall>k\<in>set alts. k \<noteq> []"
  shows "match_branch alts [] = None"
  using assms
proof (induction alts)
  case Nil
  then show ?case by simp
next
  case (Cons k alts)
  then obtain av avs where "k = av # avs" by (cases k) auto
  with Cons show ?case by simp
qed

lemma re_search_dropWhile:
  assumes "\<forall>k\<in>set alts. k \<noteq> [] \<and> (\<forall>av\<in>set k. \<forall>ch. literal_ignore av ch \<longrightarrow> \<not> isspace ch)"
  shows "re_search alts (dropWhile isspace s) = re_search alts s"
  using assms by (induction s) (auto simp: match_branch_space)

lemma re_search_spaces:
  assumes "\<forall>k\<in>set alts. k \<noteq> [] \<and> (\<forall>av\<in>set k. \<forall>ch. literal_ignore av ch \<longrightarrow> \<not> isspace ch)"
    and "\<forall>c\<in>set ws. isspace c"
  shows "re_search alts ws = None"
  using assms by (induction ws) (auto simp: match_branch_space match_branch_Nil)

lemma match_literals_trailing:
  assumes "\<forall>av\<in>set k. \<forall>ch. literal_ignore av ch \<longrightarrow> \<not> isspace ch"
    and "\<forall>c\<in>set ws. isspace c"
  shows "match_literals k (t @ ws) = match_literals k t"
  using assms
proof (induction k t rule: match_literals.induct)
  case (2 av avs)
  then show ?case by (cases ws) auto
qed auto

lemma match_branch_trailing:
  assumes "\<forall>k\<in>set alts. \<forall>av\<in>set k. \<forall>ch. literal_ignore av ch \<longrightarrow> \<not> isspace ch"
    and "\<forall>c\<in>set ws. isspace c"
  shows "match_branch alts (t @ ws) = match_branch alts t"
  using assms
proof (induction alts)
  case Nil
  then show ?case by simp
next
  case (Cons k alts)
  then have m: "match_literals k (t @ ws) = match_literals k t"
    by (simp add: match_literals_trailing)
  have "match_literals k t \<Longrightarrow> take (length k) (t @ ws) = take (length k) t"
    using match_literals_length [of k t] by simp
  with m Cons show ?case by simp
qed

lemma re_search_trailing:
  assumes "\<forall>k\<in>set alts. k \<noteq> [] \<and> (\<forall>av\<in>set k. \<forall>ch. literal_ignore av ch \<longrightarrow> \<not> isspace ch)"
    and "\<forall>c\<in>set ws. isspace c"
  shows "re_search alts (t @ ws) = re_search alts t"
proof (induction t)
  case Nil
  show ?case using assms by (simp add: re_search_spaces match_branch_Nil)
next
  case (Cons c t)
  have "match_branch alts ((c # t) @ ws) = match_branch alts (c # t)"
    using assms by (intro match_branch_trailing) auto
  with Cons show ?case by (simp split: option.split)
qed

lemma re_search_strip:
  assumes "\<forall>k\<in>set alts. k \<noteq> [] \<and> (\<forall>av\<in>set k. \<forall>ch. literal_ignore av ch \<longrightarrow> \<not> isspace ch)"
  shows "re_search alts (strip s) = re_search alts s"
proof -
  define t where "t = dropWhile isspace s"
  define ws where "ws = rev (takeWhile isspace (rev t))"
  have "strip s @ ws = rev (takeWhile isspace (rev t) @ dropWhile isspace (rev t))"
    unfolding strip_def ws_def t_def by (simp only: rev_append)
  also have "\<dots> = t" by (simp only: takeWhile_dropWhile_id rev_rev_ident)
  finally have t: "t = strip s @ ws" by simp
  have ws: "\<forall>c\<in>set ws. isspace c" by (auto simp: ws_def dest: set_takeWhileD)
  have "re_search alts (strip s @ ws) = re_search alts (strip s)"
    using assms ws by (rule re_search_trailing)
  with t have "re_search alts (strip s) = re_search alts t" by simp
  also have "\<dots> = re_search alts s" unfolding t_def using assms by (rule re_search_dropWhile)
  finally show ?thesis .
qed

lemma sentiment_pattern_no_space:
  "\<forall>k\<in>set sentiment_pattern. k \<noteq> [] \<and> (\<forall>av\<in>set k. \<forall>ch. literal_ignore av ch \<longrightarrow> \<not> isspace ch)"
  by (auto simp: sentiment_pattern_def str_def dest!: literal_ignore_not_space [rotated])

lemma re_search_sentiment_strip:
  "re_search sentiment_pattern (strip s) = re_search sentiment_pattern s"
  using sentiment_pattern_no_space by (rule re_search_strip)


lemma match_literals_Cons:
  "match_literals (av # avs) s \<longleftrightarrow> (\<exists>ch s'. s = ch # s' \<and> literal_ignore av ch \<and> match_literals avs s')"
  by (cases s) auto

subsection \<open>Where the search stops\<close>

lemma match_branch_None: "match_branch alts s = None \<longleftrightarrow> (\<forall>k\<in>set alts. \<not> match_literals k s)"
  by (induction alts) auto


lemma re_search_None: "re_search alts s = None \<longleftrightarrow> (\<forall>k\<in>set alts. \<not> occurs k s)"
proof (induction s)
  case Nil
  then show ?case by (simp add: match_branch_None)
next
  case (Cons c s)
  have "re_search alts (c # s) = None \<longleftrightarrow>
        match_branch alts (c # s) = None \<and> re_search alts s = None"
    by (cases "match_branch alts (c # s)") auto
  with Cons show ?case by (auto simp: match_branch_None)
qed


lemma occurs_iff: "occurs word s \<longleftrightarrow> (\<exists>i\<le>length s. occurs_at word s i)"
proof (induction s)
  case Nil
  then show ?case by (simp add: occurs_at_def)
next
  case (Cons c s)
  show ?case
  proof
    assume "occurs word (c # s)"
    then consider "match_literals word (c # s)" | "occurs word s" by auto
    then show "\<exists>i\<le>length (c # s). occurs_at word (c # s) i"
    proof cases
      case 1
      then have "occurs_at word (c # s) 0" by (simp add: occurs_at_def)
      then show ?thesis by blast
    next
      case 2
      with Cons obtain i where "i \<le> length s" "occurs_at word s i" by blast
      then have "Suc i \<le> length (c # s)" "occurs_at word (c # s) (Suc i)"
        by (simp_all add: occurs_at_def)
      then show ?thesis by blast
    qed
  next
    assume "\<exists>i\<le>length (c # s). occurs_at word (c # s) i"
    then obtain i where i: "i \<le> length (c # s)" "occurs_at word (c # s) i" by blast
    show "occurs word (c # s)"
    proof (cases i)
      case 0
      with i show ?thesis by (simp add: occurs_at_def)
    next
      case (Suc j)
      with i have "j \<le> length s" "occurs_at word s j" by (simp_all add: occurs_at_def)
      with Cons show ?thesis by auto
    qed
  qed
qed

lemma Neutral_excludes:
  assumes "match_literals (str ''Neutral'') t"
  shows "\<not> match_literals (str ''Positive'') t \<and> \<not> match_literals (str ''Negative'') t"
proof -
  have n: "str ''Neutral'' = 0x4E # 0x65 # 0x75 # str ''tral''"
    and p: "str ''Positive'' = 0x50 # str ''ositive''"
    and g: "str ''Negative'' = 0x4E # 0x65 # 0x67 # str ''ative''"
    by (simp_all add: str_def)
  from assms obtain c1 c2 c3 r where t: "t = c1 # c2 # c3 # r"
    and l: "literal_ignore 0x4E c1" "literal_ignore 0x75 c3"
    unfolding n by (auto simp: match_literals_Cons)
  from l have "\<not> literal_ignore 0x50 c1" "\<not> literal_ignore 0x67 c3"
    unfolding literal_ignore_def sre_lower_unicode_def ignorecase_fixes_def Let_def
    by (auto split: if_splits)
  with t show ?thesis unfolding p g by simp
qed

lemma re_search_first:
  assumes "occurs_at (str ''Neutral'') s i"
    and "\<forall>j<i. \<not> occurs_at (str ''Positive'') s j \<and> \<not> occurs_at (str ''Negative'') s j"
  shows "\<exists>t. match_literals (str ''Neutral'') t \<and>
             re_search sentiment_pattern s = Some (take (length (str ''Neutral'')) t)"
  using assms
proof (induction s arbitrary: i)
  case Nil
  then show ?case by (simp add: occurs_at_def str_def)
next
  case (Cons c s)
  show ?case
  proof (cases "match_literals (str ''Neutral'') (c # s)")
    case True
    with Neutral_excludes [OF True]
    have "re_search sentiment_pattern (c # s) = Some (take (length (str ''Neutral'')) (c # s))"
      by (simp add: sentiment_pattern_def)
    with True show ?thesis by blast
  next
    case False
    with Cons.prems(1) obtain i' where i: "i = Suc i'"
      by (cases i) (auto simp: occurs_at_def)
    with Cons.prems have n: "occurs_at (str ''Neutral'') s i'"
      and "\<not> occurs_at (str ''Positive'') (c # s) 0 \<and> \<not> occurs_at (str ''Negative'') (c # s) 0"
      and "\<forall>j<i'. \<not> occurs_at (str ''Positive'') (c # s) (Suc j) \<and>
                   \<not> occurs_at (str ''Negative'') (c # s) (Suc j)"
      by (auto simp: occurs_at_def)
    then have z: "\<not> match_literals (str ''Positive'') (c # s)"
          "\<not> match_literals (str ''Negative'') (c # s)"
      and b: "\<forall>j<i'. \<not> occurs_at (str ''Positive'') s j \<and> \<not> occurs_at (str ''Negative'') s j"
      by (simp_all add: occurs_at_def)
    from z False have "match_branch sentiment_pattern (c # s) = None"
      by (simp add: sentiment_pattern_def)
    then have "re_search sentiment_pattern (c # s) = re_search sentiment_pattern s" by simp
    with Cons.IH [OF n b] show ?thesis by simp
  qed
qed

subsection \<open>Capitalising a match\<close>

lemma literal_ignore_plain:
  assumes "0x61 \<le> lo" "lo \<le> 0x7A" "lo \<noteq> 0x69" "lo \<noteq> 0x73" "lo \<noteq> 0x6B"
  shows "literal_ignore lo ch \<longleftrightarrow> ch = lo \<or> ch + 32 = lo"
  using assms unfolding literal_ignore_def sre_lower_unicode_def ignorecase_fixes_def Let_def
  by auto

lemma lower_cp_plain:
  assumes "0x61 \<le> lo" "lo \<le> 0x7A" "ch = lo \<or> ch + 32 = lo"
  shows "lower_cp ch = [lo]"
  using assms unfolding lower_cp_def by auto

lemma lower_plain:
  assumes "\<forall>av\<in>set avs. 0x61 \<le> av \<and> av \<le> 0x7A \<and> av \<noteq> 0x69 \<and> av \<noteq> 0x73 \<and> av \<noteq> 0x6B"
    and "match_literals avs t"
  shows "lower (take (length avs) t) = avs"
  using assms(2,1)
proof (induction avs t rule: match_literals.induct)
  case (3 av avs ch s)
  from "3.prems" have b: "0x61 \<le> av" "av \<le> 0x7A" "av \<noteq> 0x69" "av \<noteq> 0x73" "av \<noteq> 0x6B"
    and m: "literal_ignore av ch" "match_literals avs s" by simp_all
  from m(1) have "ch = av \<or> ch + 32 = av" using literal_ignore_plain [OF b] by blast
  with b have "lower_cp ch = [av]" by (intro lower_cp_plain)
  moreover from 3 m have "lower (take (length avs) s) = avs" by simp
  ultimately show ?case by (simp add: lower_def)
qed (simp_all add: lower_def)

lemma capitalize_Neutral:
  assumes "match_literals (str ''Neutral'') t"
  shows "capitalize (take (length (str ''Neutral'')) t) = str ''Neutral''"
proof -
  have n: "str ''Neutral'' = 0x4E # str ''eutral''" by (simp add: str_def)
  from assms obtain c r where t: "t = c # r" and c: "literal_ignore 0x4E c"
    and r: "match_literals (str ''eutral'') r"
    unfolding n by (auto simp: match_literals_Cons)
  from c have "c = 0x4E \<or> c = 0x6E"
    unfolding literal_ignore_def sre_lower_unicode_def ignorecase_fixes_def Let_def
    by (auto split: if_splits)
  then have c': "title_cp c = [0x4E]" by (auto simp: title_cp_def)
  have "lower (take (length (str ''eutral'')) r) = str ''eutral''"
    using _ r by (rule lower_plain) (simp add: str_def)
  with t c' show ?thesis unfolding n by (simp add: capitalize_def)
qed

section \<open>Extraction of the label (lines 78 to 90)\<close>

text \<open>Facts for evaluating the definitions on given text.\<close>

lemmas match_eval =
  str_def occurs_at_def literal_ignore_def sre_lower_unicode_def ignorecase_fixes_def

lemmas extract_eval =
  extract_sentiment_def py_in_def getitem_def strip_method_def strip_def isspace_def
  sentiment_pattern_def sentiment_dict_def capitalize_def lower_def lower_cp_def title_cp_def
  has_response_def

text \<open>
  For a reply with a \<open>response\<close> string, extraction is the search on that string: stripping
  the white space around it changes nothing for the search.
\<close>

lemma extract_sentiment_reply:
  assumes "has_response result reply"
  shows "extract_sentiment result =
         (case re_search sentiment_pattern reply of
            Some m \<Rightarrow> Inr (sentiment_dict (capitalize m))
          | None \<Rightarrow> Inr (sentiment_dict (take 50 (strip reply))))"
proof -
  from assms obtain kvs where r: "result = JObj kvs"
    and m: "map_of kvs (str ''response'') = Some (JStr reply)"
    by (auto simp: has_response_def split: json.splits)
  from m have "(str ''response'', JStr reply) \<in> set kvs" by (rule map_of_SomeD)
  then have "str ''response'' \<in> fst ` set kvs" by force
  then have i: "py_in (str ''response'') result = Inr True" by (simp add: py_in_def r)
  from m have g: "getitem result (str ''response'') = Inr (JStr reply)"
    by (simp add: getitem_def r)
  show ?thesis
    unfolding extract_sentiment_def i g
    by (simp add: strip_method_def re_search_sentiment_strip)
qed

text \<open>
  C1 (as amended). When \<open>Neutral\<close> occurs in the reply in any letter case, at a position \<open>i\<close>,
  and neither \<open>Positive\<close> nor \<open>Negative\<close> occurs at a position before \<open>i\<close>, extraction
  returns exactly the label \<open>Neutral\<close>.
\<close>

theorem extract_first_Neutral:
  assumes "has_response result reply"
    and "occurs_at (str ''Neutral'') reply i"
    and "\<forall>j<i. \<not> occurs_at (str ''Positive'') reply j \<and> \<not> occurs_at (str ''Negative'') reply j"
  shows "extract_sentiment result = Inr (sentiment_dict (str ''Neutral''))"
proof -
  from re_search_first [OF assms(2,3)] obtain t
    where t: "match_literals (str ''Neutral'') t"
      and s: "re_search sentiment_pattern reply = Some (take (length (str ''Neutral'')) t)"
    by blast
  from t have "capitalize (take (length (str ''Neutral'')) t) = str ''Neutral''"
    by (rule capitalize_Neutral)
  with s show ?thesis by (simp add: extract_sentiment_reply [OF assms(1)])
qed

text \<open>An instance: the reply \<open>is NEUTRAL, not negative\<close>, where \<open>Neutral\<close> occurs at position 3.\<close>

theorem extract_first_Neutral_witness:
  "has_response (JObj [(str ''response'', JStr (str ''is NEUTRAL, not negative''))])
     (str ''is NEUTRAL, not negative'') \<and>
   occurs_at (str ''Neutral'') (str ''is NEUTRAL, not negative'') 3 \<and>
   \<not> occurs_at (str ''Positive'') (str ''is NEUTRAL, not negative'') 0 \<and>
   \<not> occurs_at (str ''Negative'') (str ''is NEUTRAL, not negative'') 0 \<and>
   \<not> occurs_at (str ''Positive'') (str ''is NEUTRAL, not negative'') 1 \<and>
   \<not> occurs_at (str ''Negative'') (str ''is NEUTRAL, not negative'') 1 \<and>
   \<not> occurs_at (str ''Positive'') (str ''is NEUTRAL, not negative'') 2 \<and>
   \<not> occurs_at (str ''Negative'') (str ''is NEUTRAL, not negative'') 2 \<and>
   extract_sentiment (JObj [(str ''response'', JStr (str ''is NEUTRAL, not negative''))]) =
     Inr (sentiment_dict (str ''Neutral''))"
proof -
  have h1: "has_response (JObj [(str ''response'', JStr (str ''is NEUTRAL, not negative''))])
     (str ''is NEUTRAL, not negative'')"
    by (simp add: has_response_def)
  have h2: "occurs_at (str ''Neutral'') (str ''is NEUTRAL, not negative'') 3"
    by (simp add: match_eval)
  have p: "\<not> occurs_at (str ''Positive'') (str ''is NEUTRAL, not negative'') j \<and>
           \<not> occurs_at (str ''Negative'') (str ''is NEUTRAL, not negative'') j"
    if "j = 0 \<or> j = 1 \<or> j = 2" for j
    using that by (auto simp: match_eval)
  have h3: "\<forall>j<3. \<not> occurs_at (str ''Positive'') (str ''is NEUTRAL, not negative'') j \<and>
           \<not> occurs_at (str ''Negative'') (str ''is NEUTRAL, not negative'') j"
  proof (intro allI impI)
    fix j :: nat assume "j < 3"
    then have "j = 0 \<or> j = 1 \<or> j = 2" by arith
    then show "\<not> occurs_at (str ''Positive'') (str ''is NEUTRAL, not negative'') j \<and>
           \<not> occurs_at (str ''Negative'') (str ''is NEUTRAL, not negative'') j" by (rule p)
  qed
  from p [of 0] p [of 1] p [of 2] h1 h2 extract_first_Neutral [OF h1 h2 h3]
  show ?thesis by simp
qed

text \<open>
  C1 as stated fails: the reply \<open>Not negative, rather neutral.\<close> contains \<open>Neutral\<close>, and
  extraction returns \<open>Negative\<close>, the keyword that occurs first.
\<close>

theorem extract_Neutral_counterexample:
  "has_response (JObj [(str ''response'', JStr (str ''Not negative, rather neutral.''))])
     (str ''Not negative, rather neutral.'') \<and>
   occurs (str ''Neutral'') (str ''Not negative, rather neutral.'') \<and>
   extract_sentiment (JObj [(str ''response'', JStr (str ''Not negative, rather neutral.''))]) =
     Inr (sentiment_dict (str ''Negative'')) \<and>
   str ''Negative'' \<noteq> str ''Neutral''"
  by (simp add: match_eval extract_eval)

text \<open>
  C2 (as amended). When none of \<open>Positive\<close>, \<open>Negative\<close>, \<open>Neutral\<close> occurs in the reply,
  extraction returns the first 50 characters of the reply with the white space around it
  stripped.
\<close>

theorem extract_fallback:
  assumes "has_response result reply"
    and "\<not> occurs (str ''Positive'') reply"
    and "\<not> occurs (str ''Negative'') reply"
    and "\<not> occurs (str ''Neutral'') reply"
  shows "extract_sentiment result = Inr (sentiment_dict (take 50 (strip reply)))"
proof -
  from assms(2-4) have "re_search sentiment_pattern reply = None"
    by (simp add: re_search_None sentiment_pattern_def)
  then show ?thesis by (simp add: extract_sentiment_reply [OF assms(1)])
qed

text \<open>An instance: the reply \<open>I cannot tell.\<close> with a space on either side.\<close>

theorem extract_fallback_witness:
  "has_response (JObj [(str ''response'', JStr (str '' I cannot tell. ''))]) (str '' I cannot tell. '') \<and>
   \<not> occurs (str ''Positive'') (str '' I cannot tell. '') \<and>
   \<not> occurs (str ''Negative'') (str '' I cannot tell. '') \<and>
   \<not> occurs (str ''Neutral'') (str '' I cannot tell. '') \<and>
   extract_sentiment (JObj [(str ''response'', JStr (str '' I cannot tell. ''))]) =
     Inr (sentiment_dict (str ''I cannot tell.''))"
proof -
  have h1: "has_response (JObj [(str ''response'', JStr (str '' I cannot tell. ''))]) (str '' I cannot tell. '')"
    by (simp add: has_response_def)
  have h2: "\<not> occurs (str ''Positive'') (str '' I cannot tell. '')" by (simp add: match_eval)
  have h3: "\<not> occurs (str ''Negative'') (str '' I cannot tell. '')" by (simp add: match_eval)
  have h4: "\<not> occurs (str ''Neutral'') (str '' I cannot tell. '')" by (simp add: match_eval)
  have e: "take 50 (strip (str '' I cannot tell. '')) = str ''I cannot tell.''"
    by (simp add: str_def strip_def isspace_def)
  from h1 h2 h3 h4 extract_fallback [OF h1 h2 h3 h4] show ?thesis unfolding e by blast
qed

text \<open>
  C2 as stated fails: for a reply that starts with a space, what is returned is not the first
  50 characters of the reply as they are.
\<close>

theorem extract_fallback_counterexample:
  "has_response (JObj [(str ''response'', JStr (str '' I cannot tell.''))]) (str '' I cannot tell.'') \<and>
   \<not> occurs (str ''Positive'') (str '' I cannot tell.'') \<and>
   \<not> occurs (str ''Negative'') (str '' I cannot tell.'') \<and>
   \<not> occurs (str ''Neutral'') (str '' I cannot tell.'') \<and>
   extract_sentiment (JObj [(str ''response'', JStr (str '' I cannot tell.''))]) \<noteq>
     Inr (sentiment_dict (take 50 (str '' I cannot tell.'')))"
  by (simp add: match_eval extract_eval)

section \<open>The handler as a whole\<close>

subsection \<open>Blank input and the probe\<close>

lemma strip_Nil_iff: "strip s = [] \<longleftrightarrow> (\<forall>c\<in>set s. isspace c)"
proof -
  have "(\<forall>x\<in>set (dropWhile isspace s). isspace x) \<longleftrightarrow> dropWhile isspace s = []"
  proof
    assume a: "\<forall>x\<in>set (dropWhile isspace s). isspace x"
    show "dropWhile isspace s = []"
    proof (rule ccontr)
      assume n: "dropWhile isspace s \<noteq> []"
      then have "\<not> isspace (hd (dropWhile isspace s))" by (rule hd_dropWhile)
      moreover from n have "hd (dropWhile isspace s) \<in> set (dropWhile isspace s)" by simp
      ultimately show False using a by blast
    qed
  qed (auto dest: set_dropWhileD)
  then show ?thesis by (simp add: strip_def dropWhile_eq_Nil_conv)
qed

lemma check_ollama_events: "snd (check_ollama w model_name) = [Get tags_url 3]"
  by (simp add: check_ollama_def)

lemma analyze_sentiment_checked:
  assumes "strip text \<noteq> []"
  shows "analyze_sentiment w model_name text =
     (case fst (check_ollama w model_name) of
        Inl e \<Rightarrow> (Inr (sentiment_dict not_running), model_name, [Get tags_url 3])
      | Inr model_name' \<Rightarrow>
          (fst (generate w model_name' (prompt_of text)), model_name',
           Get tags_url 3 # snd (generate w model_name' (prompt_of text))))"
proof -
  obtain r evs where c: "check_ollama w model_name = (r, evs)" by (cases "check_ollama w model_name")
  with check_ollama_events [of w model_name] have "evs = [Get tags_url 3]" by simp
  with c assms show ?thesis by (simp add: analyze_sentiment_def split: sum.splits)
qed

text \<open>
  C5. For every input text that consists of white space only, \<open>analyze_sentiment\<close> returns
  the fixed message that asks for text, and makes no call at all: neither the probe nor the
  generation request.
\<close>

theorem blank_input:
  assumes "\<forall>c\<in>set text. isspace c"
  shows "analyze_sentiment w model_name text =
           (Inr (sentiment_dict (str ''Please provide some text to analyze'')), model_name, [])"
  using assms by (simp add: analyze_sentiment_def strip_Nil_iff)

text \<open>An instance: a space, a line feed and a tab.\<close>

theorem blank_input_witness:
  "isspace 0x20 \<and> isspace 0x0A \<and> isspace 0x09 \<and>
   analyze_sentiment
     (example_world (Inl (ConnectionError [])) (Inl (ConnectionError [])))
     (str ''phi'') [0x20, 0x0A, 0x09] =
     (Inr (sentiment_dict (str ''Please provide some text to analyze'')), str ''phi'', [])"
proof -
  have s: "isspace 0x20" "isspace 0x0A" "isspace 0x09" by (simp_all add: isspace_def)
  then have h: "\<forall>c\<in>set [0x20, 0x0A, 0x09]. isspace c" by simp
  from s blank_input [OF h] show ?thesis by blast
qed

text \<open>
  C4. For every input whose stripped text is not empty, when the probe of the model server
  raises (a refused connection, a timeout, any exception), \<open>analyze_sentiment\<close> returns the
  fixed diagnostic that tells the operator to start Ollama; the probe is the only call made,
  so the generation endpoint is not called.
\<close>

theorem probe_failure:
  assumes "strip text \<noteq> []"
    and "requests_get w tags_url 3 = Inl e"
  shows "analyze_sentiment w model_name text =
           (Inr (sentiment_dict not_running), model_name, [Get tags_url 3]) \<and>
         (\<forall>url payload timeout.
            Post url payload timeout \<notin> set (snd (snd (analyze_sentiment w model_name text))))"
proof -
  from assms(2) have "fst (check_ollama w model_name) = Inl e"
    by (simp add: check_ollama_def)
  with assms(1) show ?thesis by (simp add: analyze_sentiment_checked)
qed

text \<open>An instance: the connection to the tags endpoint is refused.\<close>

theorem probe_failure_witness:
  "strip (str ''good'') \<noteq> [] \<and>
   requests_get (example_world (Inl (ConnectionError (str ''refused''))) (Inl (ConnectionError [])))
     tags_url 3 = Inl (ConnectionError (str ''refused'')) \<and>
   analyze_sentiment
     (example_world (Inl (ConnectionError (str ''refused''))) (Inl (ConnectionError [])))
     (str ''phi'') (str ''good'') =
     (Inr (sentiment_dict not_running), str ''phi'', [Get tags_url 3])"
proof -
  have h1: "strip (str ''good'') \<noteq> []"
    by (simp add: str_def strip_def isspace_def)
  have h2: "requests_get
     (example_world (Inl (ConnectionError (str ''refused''))) (Inl (ConnectionError [])))
     tags_url 3 = Inl (ConnectionError (str ''refused''))"
    by (simp add: example_world_def)
  from h1 h2 probe_failure [OF h1 h2, of "str ''phi''"] show ?thesis by blast
qed

subsection \<open>Model selection\<close>

lemma select_model_find:
  "select_model opts available_models model_name =
     (case find (\<lambda>opt. JStr opt \<in> set available_models) opts of
        Some opt \<Rightarrow> opt
      | None \<Rightarrow> model_name)"
  by (induction opts) auto

lemma select_model_in:
  "select_model opts available_models model_name \<in> insert model_name (set opts)"
  by (induction opts) auto

lemma check_ollama_in:
  assumes "fst (check_ollama w model_name) = Inr model_name'"
  shows "model_name' \<in> insert model_name (set model_options)"
  using assms select_model_in [of model_options _ model_name]
  by (auto simp: check_ollama_def split: sum.splits if_splits)

text \<open>
  C3. When the tags endpoint answers with status 200 and a list of model names, the selected
  model after the request is the first candidate of \<open>phi\<close>, \<open>tinyllama\<close>, \<open>gemma:2b\<close>,
  \<open>llama2\<close>, in this order, that is in the list. In particular it is \<open>tinyllama\<close> when the list
  has \<open>tinyllama\<close> and not \<open>phi\<close>, and it is the previous selection when the list has no
  candidate.
\<close>

theorem model_selection:
  assumes "strip text \<noteq> []"
    and "requests_get w tags_url 3 = Inr check_response"
    and "status_code check_response = 200"
    and "json_method check_response = Inr body"
    and "available_models_of body = Inr available_models"
  shows "fst (snd (analyze_sentiment w model_name text)) =
           (case find (\<lambda>opt. JStr opt \<in> set available_models)
                   [str ''phi'', str ''tinyllama'', str ''gemma:2b'', str ''llama2''] of
              Some opt \<Rightarrow> opt
            | None \<Rightarrow> model_name) \<and>
         (JStr (str ''tinyllama'') \<in> set available_models \<and>
          JStr (str ''phi'') \<notin> set available_models \<longrightarrow>
            fst (snd (analyze_sentiment w model_name text)) = str ''tinyllama'') \<and>
         ((\<forall>opt\<in>set [str ''phi'', str ''tinyllama'', str ''gemma:2b'', str ''llama2''].
             JStr opt \<notin> set available_models) \<longrightarrow>
            fst (snd (analyze_sentiment w model_name text)) = model_name)"
proof -
  from assms(2-5) have "fst (check_ollama w model_name) =
      Inr (select_model model_options available_models model_name)"
    by (simp add: check_ollama_def)
  with assms(1) have "fst (snd (analyze_sentiment w model_name text)) =
      select_model model_options available_models model_name"
    by (simp add: analyze_sentiment_checked)
  then show ?thesis by (simp add: model_options_def)
qed

text \<open>An instance: the endpoint lists \<open>llama2\<close> and \<open>tinyllama\<close>, the selection was \<open>phi\<close>.\<close>

theorem model_selection_witness:
  "strip (str ''good'') \<noteq> [] \<and>
   requests_get
     (example_world (Inr (ok_response (tags_body [str ''llama2'', str ''tinyllama''])))
        (Inl (ConnectionError []))) tags_url 3 =
     Inr (ok_response (tags_body [str ''llama2'', str ''tinyllama''])) \<and>
   status_code (ok_response (tags_body [str ''llama2'', str ''tinyllama''])) = 200 \<and>
   json_method (ok_response (tags_body [str ''llama2'', str ''tinyllama''])) =
     Inr (tags_body [str ''llama2'', str ''tinyllama'']) \<and>
   available_models_of (tags_body [str ''llama2'', str ''tinyllama'']) =
     Inr [JStr (str ''llama2''), JStr (str ''tinyllama'')] \<and>
   fst (snd (analyze_sentiment
     (example_world (Inr (ok_response (tags_body [str ''llama2'', str ''tinyllama''])))
        (Inl (ConnectionError []))) (str ''phi'') (str ''good''))) = str ''tinyllama''"
proof -
  have h1: "strip (str ''good'') \<noteq> []"
    by (simp add: str_def strip_def isspace_def)
  have h2: "requests_get
     (example_world (Inr (ok_response (tags_body [str ''llama2'', str ''tinyllama''])))
        (Inl (ConnectionError []))) tags_url 3 =
     Inr (ok_response (tags_body [str ''llama2'', str ''tinyllama'']))"
    by (simp add: example_world_def)
  have h3: "status_code (ok_response (tags_body [str ''llama2'', str ''tinyllama''])) = 200"
    by (simp add: ok_response_def)
  have h4: "json_method (ok_response (tags_body [str ''llama2'', str ''tinyllama''])) =
     Inr (tags_body [str ''llama2'', str ''tinyllama''])"
    by (simp add: ok_response_def)
  have h5: "available_models_of (tags_body [str ''llama2'', str ''tinyllama'']) =
     Inr [JStr (str ''llama2''), JStr (str ''tinyllama'')]"
    by (simp add: available_models_of_def tags_body_def get_method_def py_iter_def getitem_def)
  have m: "JStr (str ''tinyllama'') \<in> set [JStr (str ''llama2''), JStr (str ''tinyllama'')] \<and>
           JStr (str ''phi'') \<notin> set [JStr (str ''llama2''), JStr (str ''tinyllama'')]"
    by (simp add: str_def)
  from model_selection [OF h1 h2 h3 h4 h5, of "str ''phi''"] m
  have "fst (snd (analyze_sentiment
     (example_world (Inr (ok_response (tags_body [str ''llama2'', str ''tinyllama''])))
        (Inl (ConnectionError []))) (str ''phi'') (str ''good''))) = str ''tinyllama''"
    by blast
  with h1 h2 h3 h4 h5 show ?thesis by blast
qed

text \<open>
  C8. The selected model is always one of \<open>phi\<close>, \<open>tinyllama\<close>, \<open>gemma:2b\<close>, \<open>llama2\<close>: it
  starts as \<open>phi\<close>, and stays in this set after any sequence of requests to the two
  endpoints, whatever the world answers.
\<close>

lemma serve_in:
  assumes "model_name \<in> set model_options"
  shows "serve model_name wr \<in> set model_options"
proof (cases "snd wr")
  case GetRoot
  with assms show ?thesis by (simp add: serve_def)
next
  case (PostAnalyze input)
  show ?thesis
  proof (cases "strip input = []")
    case True
    with assms PostAnalyze show ?thesis by (simp add: serve_def analyze_sentiment_def)
  next
    case False
    show ?thesis
    proof (cases "fst (check_ollama (fst wr) model_name)")
      case (Inl e)
      with assms False PostAnalyze show ?thesis
        by (simp add: serve_def analyze_sentiment_checked)
    next
      case (Inr model_name')
      with check_ollama_in [OF Inr] assms False PostAnalyze show ?thesis
        by (auto simp: serve_def analyze_sentiment_checked)
    qed
  qed
qed

lemma foldl_serve_in:
  assumes "model_name \<in> set model_options"
  shows "foldl serve model_name reqs \<in> set model_options"
  using assms by (induction reqs arbitrary: model_name) (simp_all add: serve_in)

theorem MODEL_NAME_invariant:
  "MODEL_NAME_after [] = str ''phi'' \<and>
   MODEL_NAME_after reqs \<in> {str ''phi'', str ''tinyllama'', str ''gemma:2b'', str ''llama2''}"
proof -
  have "MODEL_NAME_init \<in> set model_options"
    by (simp add: MODEL_NAME_init_def model_options_def)
  then have "MODEL_NAME_after reqs \<in> set model_options"
    unfolding MODEL_NAME_after_def by (rule foldl_serve_in)
  then show ?thesis by (simp add: model_options_def MODEL_NAME_after_def MODEL_NAME_init_def)
qed

text \<open>An instance: a sentiment request while only \<open>llama2\<close> is listed, then a health check.\<close>

theorem MODEL_NAME_invariant_witness:
  "MODEL_NAME_after
     [(example_world (Inr (ok_response (tags_body [str ''llama2''])))
         (Inl (ConnectionError [])), PostAnalyze (str ''good'')),
      (example_world (Inl (ConnectionError [])) (Inl (ConnectionError [])), GetRoot)]
   \<in> {str ''phi'', str ''tinyllama'', str ''gemma:2b'', str ''llama2''}"
  using MODEL_NAME_invariant
    [of "[(example_world (Inr (ok_response (tags_body [str ''llama2''])))
         (Inl (ConnectionError [])), PostAnalyze (str ''good'')),
      (example_world (Inl (ConnectionError [])) (Inl (ConnectionError [])), GetRoot)]"]
  by simp

subsection \<open>Every path returns a sentiment\<close>





lemma generate_events:
  "\<exists>evs. snd (generate w model_name prompt) =
     Post generate_url (generate_payload model_name prompt) 15 # evs"
  by (cases "try_generate w model_name prompt") (simp_all add: generate_def)







subsection \<open>A probe answered with another status\<close>

lemma match_branch_Some_length:
  assumes "match_branch alts s = Some m"
  shows "\<exists>alt\<in>set alts. length m \<le> length alt"
  using assms by (induction alts) (auto split: if_splits)

lemma re_search_Some_length:
  assumes "re_search alts s = Some m"
  shows "\<exists>alt\<in>set alts. length m \<le> length alt"
  using assms
proof (induction s)
  case Nil
  then show ?case by (simp add: match_branch_Some_length)
next
  case (Cons c s)
  then show ?case
    by (cases "match_branch alts (c # s)") (auto dest: match_branch_Some_length)
qed

lemma length_lower: "length (lower s) \<le> 2 * length s"
  by (induction s) (auto simp: lower_def lower_cp_def)

lemma length_capitalize: "length (capitalize s) \<le> 2 * length s"
proof (cases s)
  case Nil
  then show ?thesis by (simp add: capitalize_def)
next
  case (Cons c cs)
  have "length (title_cp c) = 1" by (simp add: title_cp_def)
  with length_lower [of cs] Cons show ?thesis by (simp add: capitalize_def)
qed

lemma sentiment_match_short:
  assumes "re_search sentiment_pattern s = Some m"
  shows "length (capitalize m) \<le> 16"
proof -
  from re_search_Some_length [OF assms] have "length m \<le> 8"
    by (auto simp: sentiment_pattern_def str_def)
  with length_capitalize [of m] show ?thesis by simp
qed

lemma extract_sentiment_short:
  assumes "extract_sentiment result = Inr d"
  shows "\<exists>s. d = sentiment_dict s \<and> length s \<le> 50"
  using assms unfolding extract_sentiment_def
  by (auto split: sum.splits bool.splits option.splits simp: str_def dest!: sentiment_match_short)

lemma length_not_running: "length not_running = 55"
  by (simp add: not_running_def str_def)

lemma try_generate_not_not_running:
  assumes "try_generate w model_name prompt = Inr d"
  shows "d \<noteq> sentiment_dict not_running"
proof -
  from assms have "extract_sentiment (projr (json_method (projr (requests_post w generate_url (generate_payload model_name prompt) 15)))) = Inr d"
    unfolding try_generate_def by (auto split: sum.splits)
  from extract_sentiment_short [OF this] length_not_running show ?thesis
    by (auto simp: sentiment_dict_def)
qed

lemma except_generate_not_not_running:
  "fst (except_generate w model_name e) \<noteq> Inr (sentiment_dict not_running)"
  by (cases e) (auto simp: except_generate_def sentiment_dict_def not_running_def str_def split: option.splits)

lemma generate_not_not_running:
  "fst (generate w model_name prompt) \<noteq> Inr (sentiment_dict not_running)"
proof (cases "try_generate w model_name prompt")
  case (Inl e)
  with except_generate_not_not_running [of w model_name e] show ?thesis by (simp add: generate_def)
next
  case (Inr d)
  with try_generate_not_not_running [OF Inr] show ?thesis by (simp add: generate_def)
qed

text \<open>
  C9. When the probe is answered with a status other than 200, \<open>analyze_sentiment\<close> does not
  stop with the diagnostic that Ollama is not running: the list of models is not read, the
  selected model stays as it was, and the generation request is made with that model.
\<close>

theorem probe_status_not_200:
  assumes "strip text \<noteq> []"
    and "requests_get w tags_url 3 = Inr check_response"
    and "status_code check_response \<noteq> 200"
  shows "\<exists>r evs.
           analyze_sentiment w model_name text =
             (r, model_name,
              Get tags_url 3 #
              Post generate_url (generate_payload model_name (prompt_of text)) 15 # evs) \<and>
           r \<noteq> Inr (sentiment_dict not_running)"
proof -
  from assms(2,3) have "fst (check_ollama w model_name) = Inr model_name"
    by (simp add: check_ollama_def)
  with assms(1) have a: "analyze_sentiment w model_name text =
      (fst (generate w model_name (prompt_of text)), model_name,
       Get tags_url 3 # snd (generate w model_name (prompt_of text)))"
    by (simp add: analyze_sentiment_checked)
  from generate_events [of w model_name "prompt_of text"] obtain evs
    where "snd (generate w model_name (prompt_of text)) =
      Post generate_url (generate_payload model_name (prompt_of text)) 15 # evs" by blast
  with a generate_not_not_running [of w model_name "prompt_of text"] show ?thesis by simp
qed

text \<open>An instance: the tags endpoint answers 503 while \<open>tinyllama\<close> is selected.\<close>

theorem probe_status_not_200_witness:
  "strip (str ''good'') \<noteq> [] \<and>
   requests_get
     (example_world
        (Inr \<lparr>status_code = 503, http_error_msg = [], json_method = Inl (Exception [])\<rparr>)
        (Inr (ok_response (JObj [(str ''response'', JStr (str '' Positive''))]))))
     tags_url 3 =
     Inr \<lparr>status_code = 503, http_error_msg = [], json_method = Inl (Exception [])\<rparr> \<and>
   status_code \<lparr>status_code = 503, http_error_msg = [], json_method = Inl (Exception [])\<rparr>
     \<noteq> 200 \<and>
   (\<exists>r evs.
      analyze_sentiment
        (example_world
           (Inr \<lparr>status_code = 503, http_error_msg = [], json_method = Inl (Exception [])\<rparr>)
           (Inr (ok_response (JObj [(str ''response'', JStr (str '' Positive''))]))))
        (str ''tinyllama'') (str ''good'') =
        (r, str ''tinyllama'',
         Get tags_url 3 #
         Post generate_url (generate_payload (str ''tinyllama'') (prompt_of (str ''good''))) 15 #
         evs) \<and>
      r \<noteq> Inr (sentiment_dict not_running))"
proof -
  have h1: "strip (str ''good'') \<noteq> []"
    by (simp add: str_def strip_def isspace_def)
  have h2: "requests_get
     (example_world
        (Inr \<lparr>status_code = 503, http_error_msg = [], json_method = Inl (Exception [])\<rparr>)
        (Inr (ok_response (JObj [(str ''response'', JStr (str '' Positive''))]))))
     tags_url 3 =
     Inr \<lparr>status_code = 503, http_error_msg = [], json_method = Inl (Exception [])\<rparr>"
    by (simp add: example_world_def)
  have h3: "status_code
     \<lparr>status_code = 503, http_error_msg = [], json_method = Inl (Exception [])\<rparr> \<noteq> 200"
    by simp
  from h1 h2 h3 probe_status_not_200 [OF h1 h2 h3, of "str ''tinyllama''"]
  show ?thesis by blast
qed

section \<open>The client view\<close>

text \<open>
  C7. For every sentiment string the handler returns, the client shows: \<open>Positive\<close> with
  \<open>st.success\<close>, \<open>Negative\<close> with \<open>st.error\<close>, \<open>Neutral\<close> with \<open>st.info\<close>, any other
  string that contains \<open>Error\<close> with \<open>st.error\<close> (so every string \<open>Error: x\<close>), and every
  remaining string with \<open>st.warning\<close>.
\<close>

theorem rendering_mapping:
  "show_response py_str (ok_response (sentiment_dict s)) =
     Inr (if s = str ''Positive'' then
            (st_success, JStr (str ''Sentiment: Positive'' @ [0x20, 0x1F600]))
          else if s = str ''Negative'' then
            (st_error, JStr (str ''Sentiment: Negative'' @ [0x20, 0x1F61E]))
          else if s = str ''Neutral'' then
            (st_info, JStr (str ''Sentiment: Neutral'' @ [0x20, 0x1F610]))
          else if str_contains (str ''Error'') s then (st_error, JStr s)
          else (st_warning, JStr (str ''Sentiment: '' @ s))) \<and>
   show_response py_str (ok_response (sentiment_dict (str ''Error: '' @ x))) =
     Inr (st_error, JStr (str ''Error: '' @ x))"
proof -
  have r: "show_response py_str (ok_response (sentiment_dict t)) = show_sentiment py_str (JStr t)"
    for t
    by (simp add: show_response_def ok_response_def sentiment_dict_def get_method_def)
  have 1: "show_sentiment py_str (JStr s) =
     Inr (if s = str ''Positive'' then
            (st_success, JStr (str ''Sentiment: Positive'' @ [0x20, 0x1F600]))
          else if s = str ''Negative'' then
            (st_error, JStr (str ''Sentiment: Negative'' @ [0x20, 0x1F61E]))
          else if s = str ''Neutral'' then
            (st_info, JStr (str ''Sentiment: Neutral'' @ [0x20, 0x1F610]))
          else if str_contains (str ''Error'') s then (st_error, JStr s)
          else (st_warning, JStr (str ''Sentiment: '' @ s)))"
    by (simp add: show_sentiment_def py_in_def format_value_def str_def)
  have 2: "show_sentiment py_str (JStr (str ''Error: '' @ x)) =
     Inr (st_error, JStr (str ''Error: '' @ x))"
    by (simp add: show_sentiment_def py_in_def str_def)
  from 1 2 show ?thesis by (simp only: r)
qed

text \<open>An instance: the strings \<open>Neutral\<close> and \<open>Error: x\<close>.\<close>

theorem rendering_mapping_witness:
  "show_response (\<lambda>v. []) (ok_response (sentiment_dict (str ''Neutral''))) =
     Inr (st_info, JStr (str ''Sentiment: Neutral'' @ [0x20, 0x1F610])) \<and>
   show_response (\<lambda>v. []) (ok_response (sentiment_dict (str ''Error: x''))) =
     Inr (st_error, JStr (str ''Error: x''))"
  using rendering_mapping [of "\<lambda>v. []" "str ''Neutral''" "str ''x''"]
  by (simp add: str_def)

text \<open>
  C10. When the body of a response with status 200 is a dict without the key \<open>sentiment\<close>,
  the client takes the default \<open>Error\<close> and shows it with \<open>st.error\<close>; nothing is raised.
\<close>

theorem missing_sentiment_key:
  assumes "status_code res = 200"
    and "json_method res = Inr (JObj kvs)"
    and "str ''sentiment'' \<notin> fst ` set kvs"
  shows "show_response py_str res = Inr (st_error, JStr (str ''Error''))"
proof -
  from assms(3) have "map_of kvs (str ''sentiment'') = None" by (simp add: map_of_eq_None_iff)
  with assms(1,2) have "show_response py_str res = show_sentiment py_str (JStr (str ''Error''))"
    by (simp add: show_response_def get_method_def)
  also have "\<dots> = Inr (st_error, JStr (str ''Error''))"
    by (simp add: show_sentiment_def py_in_def str_def)
  finally show ?thesis .
qed

text \<open>An instance: the body \<open>{"detail": "Not Found"}\<close>.\<close>

theorem missing_sentiment_key_witness:
  "status_code (ok_response (JObj [(str ''detail'', JStr (str ''Not Found''))])) = 200 \<and>
   json_method (ok_response (JObj [(str ''detail'', JStr (str ''Not Found''))])) =
     Inr (JObj [(str ''detail'', JStr (str ''Not Found''))]) \<and>
   str ''sentiment'' \<notin> fst ` set [(str ''detail'', JStr (str ''Not Found''))] \<and>
   show_response (\<lambda>v. []) (ok_response (JObj [(str ''detail'', JStr (str ''Not Found''))])) =
     Inr (st_error, JStr (str ''Error''))"
proof -
  have h1: "status_code (ok_response (JObj [(str ''detail'', JStr (str ''Not Found''))])) = 200"
    by (simp add: ok_response_def)
  have h2: "json_method (ok_response (JObj [(str ''detail'', JStr (str ''Not Found''))])) =
     Inr (JObj [(str ''detail'', JStr (str ''Not Found''))])"
    by (simp add: ok_response_def)
  have h3: "str ''sentiment'' \<notin> fst ` set [(str ''detail'', JStr (str ''Not Found''))]"
    by (simp add: str_def)
  from h1 h2 h3 missing_sentiment_key [OF h1 h2 h3] show ?thesis by blast
qed

end
